theory Spec2Isabelle
  imports Main "HOL-Library.Word"
begin

section \<open>Package forkprocess: data\<close>

text \<open>
  Go pointers are addresses; a nil pointer is \<open>None\<close>. \<open>*os.File\<close> and
  \<open>*os.Process\<close> values are opaque to the package, which only stores and passes them.
  A Go \<open>error\<close> is an interface value; the nil error is \<open>None\<close>.
\<close>

type_synonym os_File = nat

type_synonym os_Process = nat

datatype error = OsError string

text \<open>
  \<open>type ForkProcess struct\<close> (fork.go, lines 49-58). \<open>uid\<close> and \<open>gid\<close> are
  \<open>uint32\<close>.
\<close>

record ForkProcess =
  stdin :: "os_File option"
  stdout :: "os_File option"
  stderr :: "os_File option"
  uid :: "32 word"
  gid :: "32 word"
  execPath :: string
  process :: "os_Process option"

text \<open>
  The structs of packages \<open>syscall\<close> and \<open>os\<close> that \<open>Exec\<close> fills in. Only the
  fields that \<open>Exec\<close> names are kept; every other field of the Go structs holds its
  zero value. A nil slice (\<open>Groups: nil\<close>) is the empty list.
\<close>

record Credential =
  Uid :: "32 word"
  Gid :: "32 word"
  Groups :: "32 word list"
  NoSetGroups :: bool

record SysProcAttr =
  Credential :: "Credential option"
  Setsid :: bool

record ProcAttr =
  Dir :: string
  Env :: "string list"
  Files :: "os_File option list"
  Sys :: "SysProcAttr option"

section \<open>The operating system\<close>

text \<open>
  The package reaches the operating system through three library calls:
  \<open>os.Environ()\<close>, \<open>os.StartProcess(name, argv, attr)\<close> and
  \<open>(*os.Process).Release()\<close>. The world records the environment block of the calling
  process and, in order, every call of the latter two that the program has made.
\<close>

datatype call =
  StartProcess string "string list" ProcAttr
| ProcessRelease os_Process

record world =
  environ :: "string list"
  calls :: "call list"

text \<open>
  What the operating system answers is outside the program: it is a parameter, and it
  may depend on the whole history. \<open>os.StartProcess\<close> returns \<open>(nil, err)\<close> when it
  fails and \<open>(p, nil)\<close> when it succeeds, which is the sum \<open>error + os_Process\<close>.
\<close>

record OS =
  startProcess :: "world \<Rightarrow> string \<Rightarrow> string list \<Rightarrow> ProcAttr \<Rightarrow> error + os_Process"
  processRelease :: "world \<Rightarrow> os_Process \<Rightarrow> error option"

definition os_Environ :: "world \<Rightarrow> string list" where
  "os_Environ w = environ w"

definition os_StartProcess ::
  "OS \<Rightarrow> string \<Rightarrow> string list \<Rightarrow> ProcAttr \<Rightarrow> world \<Rightarrow> (error + os_Process) \<times> world" where
  "os_StartProcess os name argv attr w =
     (startProcess os w name argv attr,
      w\<lparr>calls := calls w @ [StartProcess name argv attr]\<rparr>)"

definition Process_Release :: "OS \<Rightarrow> os_Process \<Rightarrow> world \<Rightarrow> error option \<times> world" where
  "Process_Release os p w =
     (processRelease os w p, w\<lparr>calls := calls w @ [ProcessRelease p]\<rparr>)"

section \<open>The package's functions\<close>

text \<open>\<open>func NewForkProcess\<close> (lines 69-78): the \<open>process\<close> field is left nil.\<close>

definition NewForkProcess ::
  "os_File option \<Rightarrow> os_File option \<Rightarrow> os_File option \<Rightarrow> 32 word \<Rightarrow> 32 word \<Rightarrow> string \<Rightarrow> ForkProcess" where
  "NewForkProcess stdin' stdout' stderr' uid' gid' execPath' =
     \<lparr>stdin = stdin', stdout = stdout', stderr = stderr',
      uid = uid', gid = gid', execPath = execPath', process = None\<rparr>"

text \<open>The local variables \<open>cred\<close>, \<open>sysproc\<close> and \<open>attr\<close> of \<open>Exec\<close> (lines 87-107).\<close>

definition Exec_cred :: "ForkProcess \<Rightarrow> Credential" where
  "Exec_cred f = \<lparr>Uid = uid f, Gid = gid f, Groups = [], NoSetGroups = True\<rparr>"

definition Exec_sysproc :: "ForkProcess \<Rightarrow> SysProcAttr" where
  "Exec_sysproc f = \<lparr>Credential = Some (Exec_cred f), Setsid = True\<rparr>"

definition Exec_attr :: "ForkProcess \<Rightarrow> world \<Rightarrow> ProcAttr" where
  "Exec_attr f w =
     \<lparr>Dir = execPath f,
      Env = os_Environ w,
      Files = [stdin f, stdout f, stderr f],
      Sys = Some (Exec_sysproc f)\<rparr>"

text \<open>
  \<open>func (f *ForkProcess) Exec\<close> (lines 86-122). The receiver is a pointer, so the
  launcher is passed in and returned. Line 109 is a tuple assignment: the pointer that
  \<open>os.StartProcess\<close> returns is stored in \<open>f.process\<close> before \<open>err\<close> is looked at, so a
  failed start stores nil.
\<close>

definition Exec ::
  "OS \<Rightarrow> ForkProcess \<Rightarrow> bool \<Rightarrow> string \<Rightarrow> string list \<Rightarrow> world
     \<Rightarrow> error option \<times> ForkProcess \<times> world" where
  "Exec os f release processName args w =
     (let attr = Exec_attr f w;
          (r, w1) = os_StartProcess os processName args attr w
      in case r of
           Inl err \<Rightarrow> (Some err, f\<lparr>process := None\<rparr>, w1)
         | Inr p \<Rightarrow>
             (let f1 = f\<lparr>process := Some p\<rparr> in
              if release then
                (let (err, w2) = Process_Release os p w1;
                     f2 = f1\<lparr>process := None\<rparr>
                 in if err \<noteq> None then (err, f2, w2) else (None, f2, w2))
              else (None, f1, w1)))"

text \<open>
  \<open>func (f ForkProcess) Release\<close> (lines 126-131). The receiver is a value: the method
  works on a copy, and it assigns to no field. The launcher returned is the caller's
  launcher after the call.
\<close>

definition Release :: "OS \<Rightarrow> ForkProcess \<Rightarrow> world \<Rightarrow> error option \<times> ForkProcess \<times> world" where
  "Release os f w =
     (case process f of
        Some p \<Rightarrow> (let (err, w1) = Process_Release os p w in (err, f, w1))
      | None \<Rightarrow> (None, f, w))"


section \<open>Sequences of calls\<close>

text \<open>A caller's program: one launcher, and \<open>Exec\<close> and \<open>Release\<close> called in any order.\<close>

datatype action =
  DoExec bool string "string list"
| DoRelease

fun step :: "OS \<Rightarrow> ForkProcess \<times> world \<Rightarrow> action \<Rightarrow> ForkProcess \<times> world" where
  "step os (f, w) (DoExec release processName args) = snd (Exec os f release processName args w)"
| "step os (f, w) DoRelease = snd (Release os f w)"

definition run :: "OS \<Rightarrow> action list \<Rightarrow> ForkProcess \<times> world \<Rightarrow> ForkProcess \<times> world" where
  "run os as s = foldl (step os) s as"

section \<open>Reading the record of calls\<close>

fun started_attr :: "call \<Rightarrow> ProcAttr option" where
  "started_attr (StartProcess name argv attr) = Some attr"
| "started_attr (ProcessRelease p) = None"

definition started_credential :: "call \<Rightarrow> Credential option" where
  "started_credential c =
     (case started_attr c of
        None \<Rightarrow> None
      | Some a \<Rightarrow> (case Sys a of None \<Rightarrow> None | Some s \<Rightarrow> Credential s))"

text \<open>
  What package \<open>syscall\<close> does with the descriptor in the forked child, which starts
  with the supplementary groups of its parent: when \<open>Credential\<close> is not nil it calls
  \<open>setgroups(Groups)\<close> unless \<open>NoSetGroups\<close> is set (field comment: "If true, don't set
  supplementary groups"), then \<open>setgid(Gid)\<close> and \<open>setuid(Uid)\<close>. This is the Go
  library's code, not the package's.
\<close>

definition child_groups :: "32 word list \<Rightarrow> Credential option \<Rightarrow> 32 word list" where
  "child_groups parent cred =
     (case cred of
        None \<Rightarrow> parent
      | Some c \<Rightarrow> if NoSetGroups c then parent else Groups c)"

section \<open>Concrete systems and launchers\<close>

text \<open>
  A system where every start succeeds with a fresh handle and every release returns
  nil (on Unix, \<open>Release\<close> of a process always returns nil).
\<close>

definition os_unix :: OS where
  "os_unix =
     \<lparr>startProcess = (\<lambda>w name argv attr. Inr (length (calls w))),
      processRelease = (\<lambda>w p. None)\<rparr>"

text \<open>A system where no executable is found.\<close>

definition os_enoent :: OS where
  "os_enoent =
     \<lparr>startProcess = (\<lambda>w name argv attr. Inl (OsError ''no such file or directory'')),
      processRelease = (\<lambda>w p. None)\<rparr>"

text \<open>A system where every start succeeds and every release reports an error.\<close>

definition os_release_fails :: OS where
  "os_release_fails =
     \<lparr>startProcess = (\<lambda>w name argv attr. Inr (length (calls w))),
      processRelease = (\<lambda>w p. Some (OsError ''invalid argument''))\<rparr>"

definition world0 :: world where
  "world0 = \<lparr>environ = [''PATH=/usr/bin:/bin'', ''HOME=/root''], calls = []\<rparr>"

definition launcher0 :: ForkProcess where
  "launcher0 = NewForkProcess (Some 3) (Some 4) (Some 4) 1000 1000 ''/''"

text \<open>A launcher that tracks the process with handle 7.\<close>

definition launcher7 :: ForkProcess where
  "launcher7 = launcher0\<lparr>process := Some 7\<rparr>"

definition sleep60 :: "string list" where
  "sleep60 = [''/usr/bin/sleep'', ''60'']"



section \<open>Facts shared by the results below\<close>

lemmas forkprocess_defs =
  Exec_def Release_def os_StartProcess_def Process_Release_def
  Exec_attr_def Exec_sysproc_def Exec_cred_def os_Environ_def

lemmas example_defs =
  os_unix_def os_enoent_def os_release_fails_def
  world0_def launcher0_def launcher7_def sleep60_def NewForkProcess_def

lemma Exec_launcher:
  "\<exists>h. fst (snd (Exec os f release processName args w)) = f\<lparr>process := h\<rparr>"
  by (auto simp add: Exec_def os_StartProcess_def Process_Release_def Let_def
      split: sum.splits prod.splits)

lemma Release_launcher: "fst (snd (Release os f w)) = f"
  by (simp add: Release_def Process_Release_def split: option.splits)

lemma Exec_calls_prefix:
  "take (Suc (length (calls w))) (calls (snd (snd (Exec os f release processName args w)))) =
     calls w @ [StartProcess processName args (Exec_attr f w)]"
  by (simp add: Exec_def os_StartProcess_def Process_Release_def Let_def
      split: sum.splits prod.splits)

section \<open>The process field over a sequence of calls\<close>

text \<open>
  C1. The claim: the process field is present if and only if the most recent Exec
  succeeded and has not since been released. The code at a sequence where it fails:
  one successful \<open>Exec\<close> without release, then \<open>Release\<close>. The handle has been released
  (the call is on record) and the process field still holds it, because \<open>Release\<close>
  never assigns nil to the field.
\<close>

theorem C1_process_present_after_Release:
  "process (fst (run os_unix [DoExec False ''/usr/bin/sleep'' sleep60, DoRelease]
                   (launcher0, world0))) = Some 0
   \<and> calls (snd (run os_unix [DoExec False ''/usr/bin/sleep'' sleep60, DoRelease]
                   (launcher0, world0))) =
       [StartProcess ''/usr/bin/sleep'' sleep60 (Exec_attr launcher0 world0),
        ProcessRelease 0]"
  by (simp add: run_def forkprocess_defs example_defs)

section \<open>A failed start\<close>

text \<open>
  C2, as stated: a failed \<open>Exec\<close> leaves the process field exactly as it was, also for
  a launcher that tracks a live process. It does not: the launcher tracks handle 7, no
  executable is found, and after \<open>Exec\<close> the field is nil.
\<close>

theorem C2_failed_Exec_drops_tracked_handle:
  "fst (Exec os_enoent launcher7 False ''/no/such'' [''/no/such''] world0) =
     Some (OsError ''no such file or directory'')
   \<and> process launcher7 = Some 7
   \<and> process (fst (snd (Exec os_enoent launcher7 False ''/no/such'' [''/no/such''] world0)))
       \<noteq> process launcher7"
  by (simp add: forkprocess_defs example_defs)

text \<open>
  C2, amended. When the start fails with error \<open>e\<close>, \<open>Exec\<close> returns \<open>e\<close> itself and
  stores no handle: the process field is nil after the call and no other field
  changes. So a launcher without a process is left as it was, and a launcher that
  tracked a process has lost that handle.
\<close>

theorem C2_failed_Exec:
  assumes "startProcess os w processName args (Exec_attr f w) = Inl e"
  shows "fst (Exec os f release processName args w) = Some e
         \<and> fst (snd (Exec os f release processName args w)) = f\<lparr>process := None\<rparr>
         \<and> process (fst (snd (Exec os f release processName args w))) = None
         \<and> (process f = None \<longrightarrow> fst (snd (Exec os f release processName args w)) = f)"
proof -
  have "Exec os f release processName args w =
          (Some e, f\<lparr>process := None\<rparr>,
           w\<lparr>calls := calls w @ [StartProcess processName args (Exec_attr f w)]\<rparr>)"
    using assms by (simp add: Exec_def os_StartProcess_def)
  then show ?thesis by simp
qed

theorem C2_failed_Exec_witness:
  "startProcess os_enoent world0 ''/no/such'' [''/no/such''] (Exec_attr launcher7 world0) =
     Inl (OsError ''no such file or directory'')
   \<and> fst (Exec os_enoent launcher7 True ''/no/such'' [''/no/such''] world0) =
       Some (OsError ''no such file or directory'')
   \<and> process (fst (snd (Exec os_enoent launcher7 True ''/no/such'' [''/no/such''] world0))) =
       None"
proof -
  have h: "startProcess os_enoent world0 ''/no/such'' [''/no/such'']
             (Exec_attr launcher7 world0) = Inl (OsError ''no such file or directory'')"
    by (simp add: os_enoent_def)
  from C2_failed_Exec [OF h, of True] h show ?thesis by simp
qed

section \<open>Release\<close>

text \<open>
  C3. The claim: after \<open>Release\<close> on a launcher whose process field is present, the
  field is absent, whether or not the handle's release reported an error. The code at
  a launcher that tracks handle 7: the field is still \<open>Some 7\<close> after \<open>Release\<close>, both
  when the handle's release returns nil and when it returns an error.
\<close>

theorem C3_Release_keeps_process_field:
  "Release os_unix launcher7 world0 =
     (None, launcher7, world0\<lparr>calls := [ProcessRelease 7]\<rparr>)
   \<and> Release os_release_fails launcher7 world0 =
     (Some (OsError ''invalid argument''), launcher7, world0\<lparr>calls := [ProcessRelease 7]\<rparr>)
   \<and> process launcher7 = Some 7"
  by (simp add: forkprocess_defs example_defs)



text \<open>
  C5. On a launcher whose process field is absent, \<open>Release\<close> returns nil and makes no
  call to the operating system: the world, and with it the record of calls, is
  unchanged, and so is the launcher.
\<close>

theorem C5_Release_without_process:
  "process f = None \<Longrightarrow> Release os f w = (None, f, w)"
  by (simp add: Release_def)

theorem C5_Release_without_process_witness:
  "process launcher0 = None
   \<and> Release os_release_fails launcher0 world0 = (None, launcher0, world0)"
proof -
  have h: "process launcher0 = None"
    by (simp add: launcher0_def NewForkProcess_def)
  from C5_Release_without_process [OF h] h show ?thesis by simp
qed

section \<open>Exec with and without release\<close>

text \<open>
  C6. When \<open>Exec\<close> is called with release set and the start succeeds with handle \<open>p\<close>,
  \<open>Exec\<close> calls the release of \<open>p\<close> (right after the start, as the record of calls
  shows), returns what that release returned, nil or an error, and leaves the process
  field nil in both cases.
\<close>

theorem C6_Exec_release:
  assumes "startProcess os w processName args (Exec_attr f w) = Inr p"
  shows "(let w1 = w\<lparr>calls := calls w @ [StartProcess processName args (Exec_attr f w)]\<rparr>;
              (err, f', w') = Exec os f True processName args w
          in err = processRelease os w1 p
             \<and> process f' = None
             \<and> f' = f\<lparr>process := None\<rparr>
             \<and> calls w' = calls w @ [StartProcess processName args (Exec_attr f w),
                                      ProcessRelease p])"
  using assms
  by (cases "processRelease os
        (w\<lparr>calls := calls w @ [StartProcess processName args (Exec_attr f w)]\<rparr>) p")
     (simp_all add: Exec_def os_StartProcess_def Process_Release_def)

theorem C6_Exec_release_witness:
  "startProcess os_release_fails world0 ''/usr/bin/sleep'' sleep60 (Exec_attr launcher0 world0) =
     Inr 0
   \<and> fst (Exec os_release_fails launcher0 True ''/usr/bin/sleep'' sleep60 world0) =
       Some (OsError ''invalid argument'')
   \<and> process (fst (snd (Exec os_release_fails launcher0 True ''/usr/bin/sleep'' sleep60 world0))) =
       None"
proof -
  have h: "startProcess os_release_fails world0 ''/usr/bin/sleep'' sleep60
             (Exec_attr launcher0 world0) = Inr 0"
    by (simp add: os_release_fails_def world0_def)
  from C6_Exec_release [OF h] h show ?thesis
    by (simp add: Let_def os_release_fails_def split: prod.splits)
qed

text \<open>
  C7. The claim: \<open>Exec\<close> without release returns nil with the process field holding the
  new handle, and a following \<open>Release\<close> clears the field. The code does the first and
  not the second: after \<open>Release\<close> the field still holds handle 0.
\<close>

theorem C7_Release_after_Exec_keeps_handle:
  "(let (e1, f1, w1) = Exec os_unix launcher0 False ''/usr/bin/sleep'' sleep60 world0;
        (e2, f2, w2) = Release os_unix f1 w1
    in e1 = None \<and> process f1 = Some 0 \<and> e2 = None \<and> process f2 = Some 0)"
  by (simp add: forkprocess_defs example_defs)

section \<open>What is passed to the operating system\<close>

text \<open>
  C8, as stated: the descriptor makes the child run with no inherited or additional
  groups. With \<open>NoSetGroups\<close> set, no \<open>setgroups\<close> call is made for the child: a caller
  with supplementary group 27 gets a child with supplementary group 27.
\<close>

theorem C8_child_inherits_groups:
  "child_groups [27]
     (started_credential
        (calls (snd (snd (Exec os_unix launcher0 False ''/usr/bin/sleep'' sleep60 world0))) ! 0)) =
     [27]"
  by (simp add: forkprocess_defs example_defs started_credential_def child_groups_def)

text \<open>
  C8, amended. The credential descriptor that every \<open>Exec\<close> passes to
  \<open>os.StartProcess\<close> has the stored \<open>uid\<close> and \<open>gid\<close>, an empty group list and
  \<open>NoSetGroups\<close> set; so no change of supplementary groups is requested, and the child
  keeps the supplementary groups of the calling process, whatever they are.
\<close>

theorem C8_Exec_credential:
  "(let c = started_credential
              (calls (snd (snd (Exec os f release processName args w))) ! length (calls w))
    in c = Some \<lparr>Uid = uid f, Gid = gid f, Groups = [], NoSetGroups = True\<rparr>
       \<and> child_groups parent c = parent)"
proof -
  have "calls (snd (snd (Exec os f release processName args w))) ! length (calls w) =
          StartProcess processName args (Exec_attr f w)"
    using Exec_calls_prefix [of w os f release processName args]
    by (metis lessI nth_append_length nth_take)
  then show ?thesis
    by (simp add: started_credential_def child_groups_def Exec_attr_def Exec_sysproc_def
        Exec_cred_def)
qed

text \<open>
  C9. The first call every \<open>Exec\<close> makes is \<open>os.StartProcess\<close> with the given name and
  arguments and with these attributes: \<open>Dir\<close> is the stored \<open>execPath\<close>, \<open>Env\<close> is the
  environment of the calling process as \<open>os.Environ()\<close> returns it, \<open>Files\<close> has
  exactly the three stored files in the order stdin, stdout, stderr, and \<open>Setsid\<close> is
  set.
\<close>

theorem C9_Exec_attributes:
  "(let c = calls (snd (snd (Exec os f release processName args w))) ! length (calls w)
    in c = StartProcess processName args (Exec_attr f w)
       \<and> map_option Dir (started_attr c) = Some (execPath f)
       \<and> map_option Env (started_attr c) = Some (environ w)
       \<and> map_option Files (started_attr c) = Some [stdin f, stdout f, stderr f]
       \<and> map_option (length \<circ> Files) (started_attr c) = Some 3
       \<and> map_option (map_option Setsid \<circ> Sys) (started_attr c) = Some (Some True))"
proof -
  have "calls (snd (snd (Exec os f release processName args w))) ! length (calls w) =
          StartProcess processName args (Exec_attr f w)"
    using Exec_calls_prefix [of w os f release processName args]
    by (metis lessI nth_append_length nth_take)
  then show ?thesis
    by (simp add: Exec_attr_def Exec_sysproc_def os_Environ_def)
qed

section \<open>The configuration fields\<close>

text \<open>
  C10. \<open>Exec\<close> and \<open>Release\<close> leave \<open>stdin\<close>, \<open>stdout\<close>, \<open>stderr\<close>, \<open>uid\<close>, \<open>gid\<close> and
  \<open>execPath\<close> as they were: after \<open>Exec\<close> the launcher differs from the one before in
  the process field at most, and after \<open>Release\<close> it is the same launcher.
\<close>

theorem C10_configuration_unchanged:
  "(let f' = fst (snd (Exec os f release processName args w))
    in stdin f' = stdin f \<and> stdout f' = stdout f \<and> stderr f' = stderr f
       \<and> uid f' = uid f \<and> gid f' = gid f \<and> execPath f' = execPath f
       \<and> f' = f\<lparr>process := process f'\<rparr>)
   \<and> (let f' = fst (snd (Release os f w))
       in stdin f' = stdin f \<and> stdout f' = stdout f \<and> stderr f' = stderr f
          \<and> uid f' = uid f \<and> gid f' = gid f \<and> execPath f' = execPath f
          \<and> f' = f)"
proof -
  obtain h where "fst (snd (Exec os f release processName args w)) = f\<lparr>process := h\<rparr>"
    using Exec_launcher by blast
  then show ?thesis by (simp add: Release_launcher)
qed


end
